theory Spec2Isabelle
  imports Main
begin

section \<open>The Entity Access Layer of base.queries.ts\<close>

text \<open>
  A shallow embedding of the class \<open>BaseQueries\<close> (src/server/src/db/queries/base.queries.ts)
  and of the error class \<open>NotFoundError\<close> (src/server/src/db/utils).

  Conventions of the embedding:
  \<^item> a JavaScript string is a \<open>string\<close> (the regular expressions of the source only look at
    the ASCII ranges \<open>A-Z\<close> and \<open>a-z\<close>; every other code unit is passed on unchanged);
  \<^item> a JavaScript object used as a field-to-value mapping is the list of its entries in the
    order \<open>Object.entries\<close> enumerates them (keys that are array indices, which JavaScript
    enumerates before all others, get no special treatment when an object is built);
  \<^item> \<open>throw\<close> is the left injection of a sum, a returned value the right one; the
    operations are \<open>async\<close>, and the outcome of the model is what their promise settles to;
  \<^item> the pool \<open>this.db\<close> is a function from a statement and its bound parameters to either
    a thrown error or a result; every operation returns, next to its outcome, the list of
    statements it handed to \<open>this.db.query\<close>;
  \<^item> calls of the logger are not part of the model.
\<close>

subsection \<open>Values, objects, configuration\<close>

datatype jsval = Undefined | Null | Num int | Str string | Bool bool

type_synonym obj = "(string \<times> jsval) list"

record config =
  table :: string
  COLUMN_MAP :: "(string \<times> string) list option"

subsection \<open>Naming transform\<close>

definition is_upper :: "char \<Rightarrow> bool" where
  "is_upper c = (65 \<le> (of_char c :: nat) \<and> (of_char c :: nat) \<le> 90)"

definition is_lower :: "char \<Rightarrow> bool" where
  "is_lower c = (97 \<le> (of_char c :: nat) \<and> (of_char c :: nat) \<le> 122)"

text \<open>\<open>letter.toUpperCase()\<close> and \<open>letter.toLowerCase()\<close>, which the source only applies
  to a letter matched by \<open>[a-z]\<close>, respectively \<open>[A-Z]\<close>.\<close>

definition toUpperCase :: "char \<Rightarrow> char" where
  "toUpperCase c = (if is_lower c then char_of ((of_char c :: nat) - 32) else c)"

definition toLowerCase :: "char \<Rightarrow> char" where
  "toLowerCase c = (if is_upper c then char_of ((of_char c :: nat) + 32) else c)"

text \<open>\<open>str.replace(/_([a-z])/g, (_, letter) => letter.toUpperCase())\<close>: the matches are
  found from left to right and do not overlap.\<close>

fun snakeToCamel :: "string \<Rightarrow> string" where
  "snakeToCamel [] = []"
| "snakeToCamel [c] = [c]"
| "snakeToCamel (c # d # cs) =
     (if c = CHR ''_'' \<and> is_lower d then toUpperCase d # snakeToCamel cs
      else c # snakeToCamel (d # cs))"

text \<open>\<open>str.replace(/[A-Z]/g, (letter) => `_${letter.toLowerCase()}`)\<close>.\<close>

fun camelToSnake :: "string \<Rightarrow> string" where
  "camelToSnake [] = []"
| "camelToSnake (c # cs) =
     (if is_upper c then CHR ''_'' # toLowerCase c # camelToSnake cs
      else c # camelToSnake cs)"

text \<open>
  The property read \<open>this.COLUMN_MAP?.[key]\<close>. \<open>COLUMN_MAP\<close> is either \<open>undefined\<close> or an
  ordinary object, given by its own entries; its prototype is \<open>Object.prototype\<close>, so a key
  without an own entry that names a member of \<open>Object.prototype\<close> reads that member.
\<close>

definition object_prototype_members :: "string list" where
  "object_prototype_members =
     [''constructor'', ''__defineGetter__'', ''__defineSetter__'', ''hasOwnProperty'',
      ''__lookupGetter__'', ''__lookupSetter__'', ''isPrototypeOf'', ''propertyIsEnumerable'',
      ''toString'', ''valueOf'', ''__proto__'', ''toLocaleString'']"

datatype property_read = Own string | Inherited string | Absent

definition COLUMN_MAP_read :: "config \<Rightarrow> string \<Rightarrow> property_read" where
  "COLUMN_MAP_read cfg key =
     (case COLUMN_MAP cfg of
        None \<Rightarrow> Absent
      | Some m \<Rightarrow>
          (case map_of m key of
             Some column \<Rightarrow> Own column
           | None \<Rightarrow> if key \<in> set object_prototype_members then Inherited key else Absent))"

text \<open>
  An inherited member is a function, or for \<open>__proto__\<close> the prototype object. The source
  uses a column name only inside template strings and in truthiness tests, so the member is
  represented by the text a template string gives it (for a built-in function, as Node
  prints it); the text is not empty, as the member is truthy.
\<close>

definition member_text :: "string \<Rightarrow> string" where
  "member_text member =
     (if member = ''__proto__'' then ''[object Object]''
      else ''function '' @ (if member = ''constructor'' then ''Object'' else member)
             @ ''() { [native code] }'')"

text \<open>\<open>this.COLUMN_MAP?.[key] ?? this.camelToSnake(key)\<close>: only \<open>undefined\<close> falls through
  to \<open>camelToSnake\<close>.\<close>

definition getColumnName :: "config \<Rightarrow> string \<Rightarrow> string" where
  "getColumnName cfg key =
     (case COLUMN_MAP_read cfg key of
        Own column \<Rightarrow> column
      | Inherited member \<Rightarrow> member_text member
      | Absent \<Rightarrow> camelToSnake key)"

text \<open>\<open>mapRowToEntity\<close>: \<open>entity[this.snakeToCamel(key)] = value\<close> for every entry of the
  row, starting from the empty object. An assignment to a key the object already has
  replaces its value in place, one to a new key appends an entry (also when the key names
  a member of \<open>Object.prototype\<close>: the entity gets an own property of that name).\<close>

fun obj_set :: "string \<Rightarrow> jsval \<Rightarrow> obj \<Rightarrow> obj" where
  "obj_set k v [] = [(k, v)]"
| "obj_set k v (p # ps) = (if fst p = k then (k, v) # ps else p # obj_set k v ps)"

definition mapRowToEntity :: "config \<Rightarrow> obj \<Rightarrow> obj" where
  "mapRowToEntity cfg row =
     foldl (\<lambda>entity (key, value). obj_set (snakeToCamel key) value entity) [] row"

definition mapRowsToEntities :: "config \<Rightarrow> obj list \<Rightarrow> obj list" where
  "mapRowsToEntities cfg rows = map (mapRowToEntity cfg) rows"

subsection \<open>Numbers in template strings\<close>

text \<open>\<open>`${n}`\<close> for a natural number \<open>n\<close>: its decimal digits.\<close>

fun string_of_nat :: "nat \<Rightarrow> string" where
  "string_of_nat n =
     (if n < 10 then [char_of (48 + n)]
      else string_of_nat (n div 10) @ [char_of (48 + n mod 10)])"

declare string_of_nat.simps [simp del]

subsection \<open>Template strings and \<open>Array.prototype.join\<close>\<close>

fun join :: "string \<Rightarrow> string list \<Rightarrow> string" where
  "join sep [] = []"
| "join sep [x] = x"
| "join sep (x # y # ys) = x @ sep @ join sep (y # ys)"

text \<open>\<open>`${column} = $${n}`\<close>, the text of one condition or assignment.\<close>

definition binding :: "string \<Rightarrow> nat \<Rightarrow> string" where
  "binding column n = column @ '' = $'' @ string_of_nat n"

subsection \<open>Errors, the store\<close>

text \<open>
  \<open>Error msg\<close> is \<open>new Error(msg)\<close>; \<open>NotFoundError entityName criteria\<close> is the class of
  that name with its two public fields (its message is computed from them by
  \<open>formatCriteria\<close>); \<open>TypeError\<close> is what the runtime throws when a property of
  \<open>undefined\<close> is read; \<open>StoreError\<close> stands for whatever \<open>this.db.query\<close> rejects with.
\<close>

datatype error =
    Error string
  | NotFoundError string obj
  | TypeError
  | StoreError string

record query_result =
  rows :: "obj list"
  rowCount :: "int option"

type_synonym statement = "string \<times> jsval list"

type_synonym store = "string \<Rightarrow> jsval list \<Rightarrow> error + query_result"

text \<open>\<open>createNotFoundError(entityName, criteria)\<close> of query-helpers.ts.\<close>

definition createNotFoundError :: "string \<Rightarrow> obj \<Rightarrow> error" where
  "createNotFoundError entityName criteria = NotFoundError entityName criteria"

subsection \<open>Predicate builder\<close>

text \<open>The \<open>forEach\<close> of \<open>getColumnMapping\<close>, with its two arrays and the index of the
  current entry. An empty column name is falsy, so \<open>!column\<close> throws.\<close>

fun getColumnMapping_forEach ::
  "config \<Rightarrow> obj \<Rightarrow> nat \<Rightarrow> string list \<Rightarrow> jsval list \<Rightarrow> error + (string list \<times> jsval list)"
where
  "getColumnMapping_forEach cfg [] index conditions values = Inr (conditions, values)"
| "getColumnMapping_forEach cfg ((key, value) # entries) index conditions values =
     (let column = getColumnName cfg key in
      if column = [] then Inl (Error (''Invalid column key: '' @ key))
      else getColumnMapping_forEach cfg entries (index + 1)
             (conditions @ [binding column (index + 1)]) (values @ [value]))"

text \<open>The result is the pair \<open>(whereClause, values)\<close>.\<close>

definition getColumnMapping :: "config \<Rightarrow> obj \<Rightarrow> error + (string \<times> jsval list)" where
  "getColumnMapping cfg data =
     (let entries = data in
      if length entries = 0 then Inl (Error ''Identifier object cannot be empty'')
      else (case getColumnMapping_forEach cfg entries 0 [] [] of
              Inl e \<Rightarrow> Inl e
            | Inr (conditions, values) \<Rightarrow> Inr (join '' AND '' conditions, values)))"

text \<open>\<open>getUpdateMapping\<close>: the list of \<open>{column, value}\<close> pairs.\<close>

definition getUpdateMapping :: "config \<Rightarrow> obj \<Rightarrow> (string \<times> jsval) list" where
  "getUpdateMapping cfg updates = map (\<lambda>(key, value). (getColumnName cfg key, value)) updates"

text \<open>\<open>getCreateMapping\<close>: the list of \<open>{column, value}\<close> pairs of a create object.\<close>

definition getCreateMapping :: "config \<Rightarrow> obj \<Rightarrow> (string \<times> jsval) list" where
  "getCreateMapping cfg data = map (\<lambda>(key, value). (getColumnName cfg key, value)) data"

text \<open>The \<open>for ... of\<close> loop of \<open>buildFilterClause\<close>, with \<open>conditions\<close>, \<open>params\<close> and
  \<open>paramIndex\<close>.\<close>

fun buildFilterClause_loop ::
  "config \<Rightarrow> obj \<Rightarrow> string list \<Rightarrow> jsval list \<Rightarrow> nat \<Rightarrow> string list \<times> jsval list"
where
  "buildFilterClause_loop cfg [] conditions params paramIndex = (conditions, params)"
| "buildFilterClause_loop cfg ((key, value) # entries) conditions params paramIndex =
     (if value \<noteq> Undefined \<and> value \<noteq> Null then
        (let column = getColumnName cfg key in
         if column \<noteq> [] then
           buildFilterClause_loop cfg entries
             (conditions @ [binding column paramIndex]) (params @ [value]) (paramIndex + 1)
         else buildFilterClause_loop cfg entries conditions params paramIndex)
      else buildFilterClause_loop cfg entries conditions params paramIndex)"

text \<open>The result is the pair \<open>(whereClause, params)\<close>.\<close>

definition buildFilterClause :: "config \<Rightarrow> obj \<Rightarrow> string \<times> jsval list" where
  "buildFilterClause cfg filters =
     (case buildFilterClause_loop cfg filters [] [] 1 of
        (conditions, params) \<Rightarrow>
          (if length conditions > 0 then join '' AND '' conditions else ''1=1'', params))"

subsection \<open>Truthiness and defaults\<close>

text \<open>What \<open>if (x)\<close>, \<open>Boolean(x)\<close> and \<open>x || y\<close> look at.\<close>

fun truthy :: "jsval \<Rightarrow> bool" where
  "truthy Undefined = False"
| "truthy Null = False"
| "truthy (Num n) = (n \<noteq> 0)"
| "truthy (Str s) = (s \<noteq> [])"
| "truthy (Bool b) = b"

text \<open>\<open>result.rowCount || 0\<close>.\<close>

definition rowCount_or_0 :: "int option \<Rightarrow> int" where
  "rowCount_or_0 rc = (case rc of None \<Rightarrow> 0 | Some n \<Rightarrow> if n \<noteq> 0 then n else 0)"

text \<open>\<open>row.exists\<close>: the value of the property, \<open>undefined\<close> when the row has no such
  entry (\<open>Object.prototype\<close> has no member of that name).\<close>

definition row_exists :: "obj \<Rightarrow> jsval" where
  "row_exists row = (case map_of row ''exists'' of None \<Rightarrow> Undefined | Some v \<Rightarrow> v)"

subsection \<open>Single entity operations\<close>

text \<open>
  \<open>find_op\<close> is the method \<open>find\<close>. An operation returns the statements it handed to the store and its outcome. The
  identifier is mapped before the \<open>try\<close> block, so an error of \<open>getColumnMapping\<close> leaves
  the operation with no statement issued. Inside \<open>try\<close>, whatever is thrown is logged and
  thrown again by the \<open>catch\<close> clause.
\<close>

definition find_op :: "config \<Rightarrow> store \<Rightarrow> obj \<Rightarrow> statement list \<times> (error + obj option)" where
  "find_op cfg db identifier =
     (case getColumnMapping cfg identifier of
        Inl e \<Rightarrow> ([], Inl e)
      | Inr (whereClause, values) \<Rightarrow>
          (let query = ''SELECT * FROM '' @ table cfg @ '' WHERE '' @ whereClause @ '' LIMIT 1'' in
           ([(query, values)],
            case db query values of
              Inl error \<Rightarrow> Inl error
            | Inr result \<Rightarrow>
                (case rows result of
                   [] \<Rightarrow> Inr None
                 | row # _ \<Rightarrow> Inr (Some (mapRowToEntity cfg row))))))"

definition get :: "config \<Rightarrow> store \<Rightarrow> obj \<Rightarrow> statement list \<times> (error + obj)" where
  "get cfg db identifier =
     (case find_op cfg db identifier of
        (issued, Inl e) \<Rightarrow> (issued, Inl e)
      | (issued, Inr None) \<Rightarrow> (issued, Inl (createNotFoundError (table cfg) identifier))
      | (issued, Inr (Some entity)) \<Rightarrow> (issued, Inr entity))"

definition exists :: "config \<Rightarrow> store \<Rightarrow> obj \<Rightarrow> statement list \<times> (error + bool)" where
  "exists cfg db identifier =
     (case getColumnMapping cfg identifier of
        Inl e \<Rightarrow> ([], Inl e)
      | Inr (whereClause, values) \<Rightarrow>
          (let query = ''SELECT EXISTS(SELECT 1 FROM '' @ table cfg @ '' WHERE '' @ whereClause @ '')'' in
           ([(query, values)],
            case db query values of
              Inl error \<Rightarrow> Inl error
            | Inr result \<Rightarrow>
                (case rows result of
                   [] \<Rightarrow> Inl TypeError
                 | row # _ \<Rightarrow> Inr (truthy (row_exists row))))))"

text \<open>The \<open>setClauses\<close> of \<open>update\<close> (lines 268-271) and of \<open>updateAndReturn\<close>
  (lines 308-311); \<open>n\<close> is \<open>identifierValues.length\<close>.\<close>

definition update_setClauses :: "nat \<Rightarrow> (string \<times> jsval) list \<Rightarrow> string list" where
  "update_setClauses n updateMappings =
     map (\<lambda>(index, mapping). binding (fst mapping) (n + index + 1)) (enumerate 0 updateMappings)"

definition updateAndReturn_setClauses :: "nat \<Rightarrow> (string \<times> jsval) list \<Rightarrow> string list" where
  "updateAndReturn_setClauses n updateMappings =
     map (\<lambda>(index, mapping). binding (fst mapping) (n + index + 2)) (enumerate 0 updateMappings)"

text \<open>The line break and indentation inside the multi-line template strings.\<close>

definition nl :: string where
  "nl = CHR 0x0A # ''        ''"

definition update :: "config \<Rightarrow> store \<Rightarrow> obj \<Rightarrow> obj \<Rightarrow> statement list \<times> (error + unit)" where
  "update cfg db identifier updates =
     (case getColumnMapping cfg identifier of
        Inl e \<Rightarrow> ([], Inl e)
      | Inr (whereClause, identifierValues) \<Rightarrow>
          (let updateMappings = getUpdateMapping cfg updates;
               setClauses = update_setClauses (length identifierValues) updateMappings;
               query = nl @ ''UPDATE '' @ table cfg
                       @ nl @ ''SET '' @ join '', '' setClauses
                       @ nl @ ''WHERE '' @ whereClause;
               params = identifierValues @ map snd updateMappings
           in ([(query, params)],
               case db query params of
                 Inl error \<Rightarrow> Inl error
               | Inr result \<Rightarrow>
                   if rowCount result = Some 0
                   then Inl (createNotFoundError (table cfg) identifier)
                   else Inr ())))"

definition updateAndReturn ::
  "config \<Rightarrow> store \<Rightarrow> obj \<Rightarrow> obj \<Rightarrow> statement list \<times> (error + obj)"
where
  "updateAndReturn cfg db identifier updates =
     (case getColumnMapping cfg identifier of
        Inl e \<Rightarrow> ([], Inl e)
      | Inr (whereClause, identifierValues) \<Rightarrow>
          (let updateMappings = getUpdateMapping cfg updates;
               setClauses = updateAndReturn_setClauses (length identifierValues) updateMappings;
               query = nl @ ''UPDATE '' @ table cfg
                       @ nl @ ''SET '' @ join '', '' setClauses
                       @ nl @ ''WHERE '' @ whereClause
                       @ nl @ ''RETURNING *'';
               params = identifierValues @ map snd updateMappings
           in ([(query, params)],
               case db query params of
                 Inl error \<Rightarrow> Inl error
               | Inr result \<Rightarrow>
                   if rowCount result = Some 0
                   then Inl (createNotFoundError (table cfg) identifier)
                   else (case rows result of
                           [] \<Rightarrow> Inl TypeError
                         | row # _ \<Rightarrow> Inr (mapRowToEntity cfg row)))))"

definition delete :: "config \<Rightarrow> store \<Rightarrow> obj \<Rightarrow> statement list \<times> (error + unit)" where
  "delete cfg db identifier =
     (case getColumnMapping cfg identifier of
        Inl e \<Rightarrow> ([], Inl e)
      | Inr (whereClause, values) \<Rightarrow>
          (let query = ''DELETE FROM '' @ table cfg @ '' WHERE '' @ whereClause in
           ([(query, values)],
            case db query values of
              Inl error \<Rightarrow> Inl error
            | Inr result \<Rightarrow>
                if rowCount result = Some 0
                then Inl (createNotFoundError (table cfg) identifier)
                else Inr ())))"

subsection \<open>Multiple entity operations\<close>

datatype direction = ASC | DESC

fun direction_text :: "direction \<Rightarrow> string" where
  "direction_text ASC = ''ASC''"
| "direction_text DESC = ''DESC''"

record options =
  limit :: "int option"
  offset :: "int option"
  orderBy :: "string option"
  orderDirection :: "direction option"

text \<open>\<open>options?.field\<close>, and the tests \<open>if (options?.field)\<close> of \<open>findAll\<close>: a number is
  truthy unless it is 0, a string unless it is empty.\<close>

definition opt :: "options option \<Rightarrow> (options \<Rightarrow> 'a option) \<Rightarrow> 'a option" where
  "opt options field = (case options of None \<Rightarrow> None | Some os \<Rightarrow> field os)"

definition requested_num :: "int option \<Rightarrow> bool" where
  "requested_num x = (case x of None \<Rightarrow> False | Some n \<Rightarrow> truthy (Num n))"

definition requested_str :: "string option \<Rightarrow> bool" where
  "requested_str x = (case x of None \<Rightarrow> False | Some s \<Rightarrow> truthy (Str s))"

text \<open>The statement \<open>findAll\<close> builds (lines 378-397): \<open>query\<close> and \<open>params\<close> are extended
  step by step.\<close>

definition findAll_statement :: "config \<Rightarrow> obj option \<Rightarrow> options option \<Rightarrow> statement" where
  "findAll_statement cfg filters options =
     (let (whereClause, params) =
            (case filters of Some fs \<Rightarrow> buildFilterClause cfg fs | None \<Rightarrow> (''1=1'', []));
          query = ''SELECT * FROM '' @ table cfg @ '' WHERE '' @ whereClause;
          query =
            (if requested_str (opt options orderBy) then
               (let orderColumn = getColumnName cfg (the (opt options orderBy)) in
                query @ '' ORDER BY '' @ orderColumn @ '' ''
                  @ direction_text (case opt options orderDirection of
                                      None \<Rightarrow> ASC | Some d \<Rightarrow> d))
             else query);
          (query, params) =
            (if requested_num (opt options limit) then
               (query @ '' LIMIT $'' @ string_of_nat (length params + 1),
                params @ [Num (the (opt options limit))])
             else (query, params));
          (query, params) =
            (if requested_num (opt options offset) then
               (query @ '' OFFSET $'' @ string_of_nat (length params + 1),
                params @ [Num (the (opt options offset))])
             else (query, params))
      in (query, params))"

definition findAll ::
  "config \<Rightarrow> store \<Rightarrow> obj option \<Rightarrow> options option \<Rightarrow> statement list \<times> (error + obj list)"
where
  "findAll cfg db filters options =
     (case findAll_statement cfg filters options of
        (query, params) \<Rightarrow>
          ([(query, params)],
           case db query params of
             Inl error \<Rightarrow> Inl error
           | Inr result \<Rightarrow> Inr (mapRowsToEntities cfg (rows result))))"

definition getAll ::
  "config \<Rightarrow> store \<Rightarrow> options option \<Rightarrow> statement list \<times> (error + obj list)"
where
  "getAll cfg db options = findAll cfg db None options"

text \<open>\<open>deleteAll\<close>: \<open>None\<close> is a missing argument (\<open>!filters\<close>).\<close>

definition deleteAll :: "config \<Rightarrow> store \<Rightarrow> obj option \<Rightarrow> statement list \<times> (error + int)" where
  "deleteAll cfg db filters =
     (if filters = None \<or> length (map fst (the filters)) = 0 then
        ([], Inl (Error (''deleteAll requires at least one filter. Use drop() to delete all records from ''
                         @ table cfg)))
      else
        (case buildFilterClause cfg (the filters) of
           (whereClause, params) \<Rightarrow>
             (let query = ''DELETE FROM '' @ table cfg @ '' WHERE '' @ whereClause in
              ([(query, params)],
               case db query params of
                 Inl error \<Rightarrow> Inl error
               | Inr result \<Rightarrow> Inr (rowCount_or_0 (rowCount result))))))"

subsection \<open>Notions used to state the properties\<close>

text \<open>An entry of a filter mapping that \<open>buildFilterClause\<close> turns into a condition.\<close>

definition included :: "config \<Rightarrow> string \<times> jsval \<Rightarrow> bool" where
  "included cfg entry =
     (snd entry \<noteq> Undefined \<and> snd entry \<noteq> Null \<and> getColumnName cfg (fst entry) \<noteq> [])"

text \<open>The conditions for a list of columns, numbered from \<open>n\<close> on.\<close>

fun conditions_from :: "nat \<Rightarrow> string list \<Rightarrow> string list" where
  "conditions_from n [] = []"
| "conditions_from n (column # columns) = binding column n # conditions_from (Suc n) columns"

text \<open>The conditions for a list of columns, with placeholders numbered positionally from 1
  in the order of the list.\<close>

definition positional_conditions :: "string list \<Rightarrow> string list" where
  "positional_conditions columns = map (\<lambda>i. binding (columns ! i) (i + 1)) [0..<length columns]"

text \<open>The override table has an own entry for the key.\<close>

definition overridden :: "config \<Rightarrow> string \<Rightarrow> bool" where
  "overridden cfg key =
     (case COLUMN_MAP cfg of None \<Rightarrow> False | Some m \<Rightarrow> map_of m key \<noteq> None)"

text \<open>There is an override table, it has no own entry for the key, and the key names a
  member of \<open>Object.prototype\<close>.\<close>

definition reads_inherited :: "config \<Rightarrow> string \<Rightarrow> bool" where
  "reads_inherited cfg key =
     (COLUMN_MAP cfg \<noteq> None \<and> \<not> overridden cfg key \<and> key \<in> set object_prototype_members)"

text \<open>A store that answers every statement with no rows and the affected-row count \<open>n\<close>.\<close>

definition store_reporting :: "int \<Rightarrow> store" where
  "store_reporting n query params = Inr \<lparr>rows = [], rowCount = Some n\<rparr>"

text \<open>The name has an underscore directly followed by a letter of \<open>a-z\<close>, that is, a match
  of the regular expression of \<open>snakeToCamel\<close>.\<close>

fun underscore_lower :: "string \<Rightarrow> bool" where
  "underscore_lower [] = False"
| "underscore_lower [c] = False"
| "underscore_lower (c # d # cs) = ((c = CHR ''_'' \<and> is_lower d) \<or> underscore_lower (d # cs))"

definition is_digit :: "char \<Rightarrow> bool" where
  "is_digit c = (48 \<le> (of_char c :: nat) \<and> (of_char c :: nat) \<le> 57)"

section \<open>Properties\<close>

subsection \<open>The loops of the predicate builders in closed form\<close>

lemma conditions_from_append:
  "conditions_from n (xs @ ys) = conditions_from n xs @ conditions_from (n + length xs) ys"
  by (induction xs arbitrary: n) simp_all

lemma length_conditions_from [simp]: "length (conditions_from n cs) = length cs"
  by (induction cs arbitrary: n) simp_all

lemma conditions_from_Nil_iff [simp]: "conditions_from n cs = [] \<longleftrightarrow> cs = []"
  by (cases cs) simp_all

lemma conditions_from_nth:
  "i < length cs \<Longrightarrow> conditions_from n cs ! i = binding (cs ! i) (n + i)"
proof (induction cs arbitrary: n i)
  case Nil
  then show ?case by simp
next
  case (Cons c cs)
  then show ?case by (cases i) simp_all
qed

lemma positional_conditions_eq: "positional_conditions cs = conditions_from 1 cs"
  by (rule nth_equalityI) (simp_all add: positional_conditions_def conditions_from_nth)

lemma buildFilterClause_loop_eq:
  "buildFilterClause_loop cfg fs conditions params n =
     (conditions @ conditions_from n (map (getColumnName cfg \<circ> fst) (filter (included cfg) fs)),
      params @ map snd (filter (included cfg) fs))"
proof (induction fs arbitrary: conditions params n)
  case Nil
  then show ?case by simp
next
  case (Cons entry fs)
  obtain key "value" where e: "entry = (key, value)" by (cases entry)
  show ?case unfolding e
    by (simp add: Cons.IH included_def Let_def)
qed

lemma getColumnMapping_forEach_eq:
  "\<forall>key \<in> fst ` set es. getColumnName cfg key \<noteq> [] \<Longrightarrow>
   getColumnMapping_forEach cfg es index conditions values =
     Inr (conditions @ conditions_from (index + 1) (map (getColumnName cfg \<circ> fst) es),
          values @ map snd es)"
proof (induction es arbitrary: index conditions "values")
  case Nil
  then show ?case by simp
next
  case (Cons entry es)
  obtain key "value" where e: "entry = (key, value)" by (cases entry)
  from Cons.prems have "\<forall>key \<in> fst ` set es. getColumnName cfg key \<noteq> []" by simp
  from Cons.IH[OF this] Cons.prems show ?case unfolding e
    by (simp add: Let_def)
qed

lemma buildFilterClause_eq:
  "buildFilterClause cfg fs =
     (if filter (included cfg) fs = [] then ''1=1''
      else join '' AND '' (positional_conditions (map (getColumnName cfg \<circ> fst) (filter (included cfg) fs))),
      map snd (filter (included cfg) fs))"
  by (simp add: buildFilterClause_def buildFilterClause_loop_eq positional_conditions_eq)

lemma getColumnMapping_eq:
  "data \<noteq> [] \<Longrightarrow> \<forall>key \<in> fst ` set data. getColumnName cfg key \<noteq> [] \<Longrightarrow>
   getColumnMapping cfg data =
     Inr (join '' AND '' (positional_conditions (map (getColumnName cfg \<circ> fst) data)), map snd data)"
  by (simp add: getColumnMapping_def getColumnMapping_forEach_eq positional_conditions_eq)

subsection \<open>Empty identifiers\<close>

text \<open>
  C3: every single-row operation (find, get, exists, update, updateAndReturn, delete)
  called with an identifier of zero entries fails with the error
  "Identifier object cannot be empty", and the list of statements handed to the store is
  empty: the store's query function is not invoked.
\<close>

theorem empty_identifier_rejected_before_store:
  "find_op cfg db [] = ([], Inl (Error ''Identifier object cannot be empty''))
   \<and> get cfg db [] = ([], Inl (Error ''Identifier object cannot be empty''))
   \<and> exists cfg db [] = ([], Inl (Error ''Identifier object cannot be empty''))
   \<and> update cfg db [] updates = ([], Inl (Error ''Identifier object cannot be empty''))
   \<and> updateAndReturn cfg db [] updates = ([], Inl (Error ''Identifier object cannot be empty''))
   \<and> delete cfg db [] = ([], Inl (Error ''Identifier object cannot be empty''))"
  by (simp add: find_op_def get_def exists_def update_def updateAndReturn_def delete_def
      getColumnMapping_def)

subsection \<open>Placeholders of updateAndReturn\<close>

text \<open>
  C1 (evaluation at a failing input): \<open>updateAndReturn({id: 7}, {name: "x"})\<close> on table
  \<open>t\<close> binds the parameters \<open>[7, "x"]\<close>, the identifier value followed by the update
  value, but its SET clause reads \<open>name = $3\<close>: the update value is at position 2 of the
  array, and no third parameter is bound. On the same input \<open>update\<close> binds the same
  parameters and writes \<open>name = $2\<close>.
\<close>

theorem updateAndReturn_placeholder_past_value:
  "fst (updateAndReturn \<lparr>table = ''t'', COLUMN_MAP = None\<rparr> db
          [(''id'', Num 7)] [(''name'', Str ''x'')])
   = [(''\<newline>        UPDATE t\<newline>        SET name = $3\<newline>        WHERE id = $1\<newline>        RETURNING *'',
       [Num 7, Str ''x''])]
   \<and> fst (update \<lparr>table = ''t'', COLUMN_MAP = None\<rparr> db
             [(''id'', Num 7)] [(''name'', Str ''x'')])
     = [(''\<newline>        UPDATE t\<newline>        SET name = $2\<newline>        WHERE id = $1'',
         [Num 7, Str ''x''])]"
  by code_simp

subsection \<open>The predicate builders\<close>

lemma filter_example:
  "buildFilterClause \<lparr>table = t, COLUMN_MAP = None\<rparr> [(''a'', Num 1), (''b'', Num 2)]
     = (''a = $1 AND b = $2'', [Num 1, Num 2])"
  by code_simp

text \<open>
  C5: for a mapping with at least one included entry, the filter-clause builder returns the
  conditions \<open>column = $n\<close> of the included entries, numbered from 1 in the iteration order
  of the mapping and joined with \<open>AND\<close>, together with the values of these entries in the
  same order; the identifier builder does the same for every entry of a non-empty
  identifier whose columns are all non-empty. Filters \<open>{a: 1, b: 2}\<close> give
  \<open>a = $1 AND b = $2\<close> with values \<open>[1, 2]\<close>.
\<close>

theorem predicate_builders_positional:
  "(filter (included cfg) filters \<noteq> [] \<longrightarrow>
      buildFilterClause cfg filters =
        (join '' AND ''
           (positional_conditions (map (getColumnName cfg \<circ> fst) (filter (included cfg) filters))),
         map snd (filter (included cfg) filters)))
   \<and> (data \<noteq> [] \<and> (\<forall>key \<in> fst ` set data. getColumnName cfg key \<noteq> []) \<longrightarrow>
      getColumnMapping cfg data =
        Inr (join '' AND '' (positional_conditions (map (getColumnName cfg \<circ> fst) data)),
             map snd data))
   \<and> buildFilterClause \<lparr>table = t, COLUMN_MAP = None\<rparr> [(''a'', Num 1), (''b'', Num 2)]
        = (''a = $1 AND b = $2'', [Num 1, Num 2])"
  using buildFilterClause_eq [of cfg filters] getColumnMapping_eq [of data cfg] filter_example [of t]
  by simp

theorem predicate_builders_positional_witness:
  "buildFilterClause \<lparr>table = ''t'', COLUMN_MAP = None\<rparr>
     [(''a'', Num 1), (''b'', Undefined), (''cD'', Str ''x'')]
     = (''a = $1 AND c_d = $2'', [Num 1, Str ''x''])
   \<and> getColumnMapping \<lparr>table = ''t'', COLUMN_MAP = None\<rparr>
       [(''id'', Num 7), (''guildId'', Str ''g'')]
     = Inr (''id = $1 AND guild_id = $2'', [Num 7, Str ''g''])"
proof -
  let ?cfg = "\<lparr>table = ''t'', COLUMN_MAP = None\<rparr>"
  let ?fs = "[(''a'', Num 1), (''b'', Undefined), (''cD'', Str ''x'')]"
  let ?data = "[(''id'', Num 7), (''guildId'', Str ''g'')]"
  have kept: "filter (included ?cfg) ?fs = [(''a'', Num 1), (''cD'', Str ''x'')]"
    by code_simp
  have h1: "filter (included ?cfg) ?fs \<noteq> []"
    unfolding kept by simp
  have h2: "?data \<noteq> [] \<and> (\<forall>key \<in> fst ` set ?data. getColumnName ?cfg key \<noteq> [])"
    by code_simp
  have c1: "join '' AND ''
              (positional_conditions (map (getColumnName ?cfg \<circ> fst) [(''a'', Num 1), (''cD'', Str ''x'')]))
            = ''a = $1 AND c_d = $2''"
    by code_simp
  have c2: "join '' AND '' (positional_conditions (map (getColumnName ?cfg \<circ> fst) ?data))
            = ''id = $1 AND guild_id = $2''"
    by code_simp
  from predicate_builders_positional [of ?cfg ?fs ?data] h1 h2
  have "buildFilterClause ?cfg ?fs =
          (join '' AND ''
             (positional_conditions (map (getColumnName ?cfg \<circ> fst) (filter (included ?cfg) ?fs))),
           map snd (filter (included ?cfg) ?fs))
        \<and> getColumnMapping ?cfg ?data =
          Inr (join '' AND '' (positional_conditions (map (getColumnName ?cfg \<circ> fst) ?data)),
               map snd ?data)"
    by blast
  then show ?thesis
    unfolding kept c1 c2 by simp
qed

text \<open>
  C2 as stated fails: a filter \<open>{a: null}\<close> does not give the condition \<open>a = $1\<close> with
  \<open>null\<close> bound, but the tautology with no parameter.
\<close>

theorem buildFilterClause_null_counterexample:
  "buildFilterClause \<lparr>table = ''t'', COLUMN_MAP = None\<rparr> [(''a'', Null)] = (''1=1'', [])
   \<and> buildFilterClause \<lparr>table = ''t'', COLUMN_MAP = None\<rparr> [(''a'', Null)]
       \<noteq> (''a = $1'', [Null])"
  by code_simp

text \<open>
  C2, amended: the entries of the mapping that are kept are those whose value is neither
  \<open>undefined\<close> nor \<open>null\<close> and whose column name is not empty. When none is kept, the
  result is the condition \<open>1=1\<close> with no parameter. Otherwise the condition is the
  conjunction of \<open>column = $n\<close> over all kept entries, numbered from 1 in the order of the
  mapping, and the parameters are the values of the kept entries in that order. In
  particular an entry that is not kept is skipped: the result is that of the mapping
  without it.
\<close>

theorem buildFilterClause_skips_undefined_and_null:
  "buildFilterClause cfg filters =
     (let kept = filter (\<lambda>(key, value). value \<noteq> Undefined \<and> value \<noteq> Null
                                        \<and> getColumnName cfg key \<noteq> []) filters
      in if kept = [] then (''1=1'', [])
         else (join '' AND ''
                 (positional_conditions (map (\<lambda>(key, value). getColumnName cfg key) kept)),
               map snd kept))
   \<and> ((v = Undefined \<or> v = Null \<or> getColumnName cfg k = []) \<longrightarrow>
      buildFilterClause cfg (xs @ (k, v) # ys) = buildFilterClause cfg (xs @ ys))
   \<and> ((v \<noteq> Undefined \<and> v \<noteq> Null \<and> getColumnName cfg k \<noteq> []) \<longrightarrow>
      buildFilterClause cfg [(k, v)] = (binding (getColumnName cfg k) 1, [v])
      \<and> snd (buildFilterClause cfg (xs @ (k, v) # ys))
          = snd (buildFilterClause cfg xs) @ v # snd (buildFilterClause cfg ys))
   \<and> ((\<forall>entry \<in> set filters. snd entry = Undefined \<or> snd entry = Null
          \<or> getColumnName cfg (fst entry) = []) \<longrightarrow>
      buildFilterClause cfg filters = (''1=1'', []))"
proof (intro conjI impI)
  have p: "included cfg = (\<lambda>(key, value). value \<noteq> Undefined \<and> value \<noteq> Null
                                        \<and> getColumnName cfg key \<noteq> [])"
    by (auto simp: included_def fun_eq_iff)
  have c: "getColumnName cfg \<circ> fst = (\<lambda>(key, value). getColumnName cfg key)"
    by (auto simp: fun_eq_iff)
  show "buildFilterClause cfg filters =
     (let kept = filter (\<lambda>(key, value). value \<noteq> Undefined \<and> value \<noteq> Null
                                        \<and> getColumnName cfg key \<noteq> []) filters
      in if kept = [] then (''1=1'', [])
         else (join '' AND ''
                 (positional_conditions (map (\<lambda>(key, value). getColumnName cfg key) kept)),
               map snd kept))"
    unfolding Let_def p [symmetric] c [symmetric] by (simp add: buildFilterClause_eq)
next
  assume "v = Undefined \<or> v = Null \<or> getColumnName cfg k = []"
  then have "\<not> included cfg (k, v)" by (auto simp: included_def)
  then show "buildFilterClause cfg (xs @ (k, v) # ys) = buildFilterClause cfg (xs @ ys)"
    by (simp add: buildFilterClause_eq)
next
  assume "v \<noteq> Undefined \<and> v \<noteq> Null \<and> getColumnName cfg k \<noteq> []"
  then have inc: "included cfg (k, v)" by (simp add: included_def)
  then show "buildFilterClause cfg [(k, v)] = (binding (getColumnName cfg k) 1, [v])"
    by (simp add: buildFilterClause_eq positional_conditions_def)
  from inc show "snd (buildFilterClause cfg (xs @ (k, v) # ys))
          = snd (buildFilterClause cfg xs) @ v # snd (buildFilterClause cfg ys)"
    by (simp add: buildFilterClause_eq)
next
  assume "\<forall>entry \<in> set filters. snd entry = Undefined \<or> snd entry = Null
            \<or> getColumnName cfg (fst entry) = []"
  then have "filter (included cfg) filters = []"
    by (auto simp: included_def filter_empty_conv)
  then show "buildFilterClause cfg filters = (''1=1'', [])"
    by (simp add: buildFilterClause_eq)
qed

theorem buildFilterClause_skips_undefined_and_null_witness:
  "buildFilterClause \<lparr>table = ''t'', COLUMN_MAP = None\<rparr>
     [(''a'', Num 1), (''b'', Null), (''cD'', Str ''x''), (''e'', Undefined), (''f'', Bool False)]
     = (''a = $1 AND c_d = $2 AND f = $3'', [Num 1, Str ''x'', Bool False])
   \<and> buildFilterClause \<lparr>table = ''t'', COLUMN_MAP = None\<rparr>
       [(''a'', Num 1), (''b'', Null), (''c'', Str ''x'')]
     = buildFilterClause \<lparr>table = ''t'', COLUMN_MAP = None\<rparr> [(''a'', Num 1), (''c'', Str ''x'')]
   \<and> buildFilterClause \<lparr>table = ''t'', COLUMN_MAP = None\<rparr> [(''b'', Num 0)]
       = (binding ''b'' 1, [Num 0])
   \<and> buildFilterClause \<lparr>table = ''t'', COLUMN_MAP = None\<rparr> [(''a'', Undefined), (''b'', Null)]
       = (''1=1'', [])"
proof -
  let ?cfg = "\<lparr>table = ''t'', COLUMN_MAP = None\<rparr>"
  let ?fs = "[(''a'', Num 1), (''b'', Null), (''cD'', Str ''x''), (''e'', Undefined),
              (''f'', Bool False)]"
  have col: "getColumnName ?cfg ''b'' = ''b''"
    by code_simp
  have kept: "filter (\<lambda>(key, value). value \<noteq> Undefined \<and> value \<noteq> Null
                                   \<and> getColumnName ?cfg key \<noteq> []) ?fs
              = [(''a'', Num 1), (''cD'', Str ''x''), (''f'', Bool False)]"
    by code_simp
  have clause: "join '' AND ''
                (positional_conditions
                   (map (\<lambda>(key, value). getColumnName ?cfg key)
                      [(''a'', Num 1), (''cD'', Str ''x''), (''f'', Bool False)]))
              = ''a = $1 AND c_d = $2 AND f = $3''"
    by code_simp
  from buildFilterClause_skips_undefined_and_null [where cfg = ?cfg and filters = ?fs and v = Null and k = "[]" and xs = "[]" and ys = "[]"]
  have whole: "buildFilterClause ?cfg ?fs
                 = (''a = $1 AND c_d = $2 AND f = $3'', [Num 1, Str ''x'', Bool False])"
    unfolding Let_def kept clause by simp
  from buildFilterClause_skips_undefined_and_null
         [where cfg = ?cfg and v = Null and k = "''b''" and xs = "[(''a'', Num 1)]"
            and ys = "[(''c'', Str ''x'')]" and filters = "[]"]
  have skipped: "buildFilterClause ?cfg [(''a'', Num 1), (''b'', Null), (''c'', Str ''x'')]
                 = buildFilterClause ?cfg [(''a'', Num 1), (''c'', Str ''x'')]"
    by simp
  from buildFilterClause_skips_undefined_and_null
         [where cfg = ?cfg and v = "Num 0" and k = "''b''" and xs = "[]" and ys = "[]"
            and filters = "[]"] col
  have one: "buildFilterClause ?cfg [(''b'', Num 0)] = (binding ''b'' 1, [Num 0])"
    by simp
  from buildFilterClause_skips_undefined_and_null
         [where cfg = ?cfg and filters = "[(''a'', Undefined), (''b'', Null)]" and v = Null
            and k = "[]" and xs = "[]" and ys = "[]"]
  have none: "buildFilterClause ?cfg [(''a'', Undefined), (''b'', Null)] = (''1=1'', [])"
    by simp
  from whole skipped one none show ?thesis by simp
qed

subsection \<open>Zero affected rows\<close>

text \<open>
  C6: when \<open>update\<close>, \<open>updateAndReturn\<close> or \<open>delete\<close> has handed its statement to the
  store and the store answers it without error and with an affected-row count of 0, the
  operation fails with a \<open>NotFoundError\<close> that carries the table name and the identifier it
  was called with (which is then not empty).
\<close>

theorem zero_rows_promoted_to_NotFoundError:
  "(fst (update cfg db identifier updates) = [(q1, ps1)] \<and> db q1 ps1 = Inr r1 \<and> rowCount r1 = Some 0
      \<longrightarrow> identifier \<noteq> []
          \<and> snd (update cfg db identifier updates) = Inl (NotFoundError (table cfg) identifier))
   \<and> (fst (updateAndReturn cfg db identifier updates) = [(q2, ps2)] \<and> db q2 ps2 = Inr r2
        \<and> rowCount r2 = Some 0
      \<longrightarrow> identifier \<noteq> []
          \<and> snd (updateAndReturn cfg db identifier updates) = Inl (NotFoundError (table cfg) identifier))
   \<and> (fst (delete cfg db identifier) = [(q3, ps3)] \<and> db q3 ps3 = Inr r3 \<and> rowCount r3 = Some 0
      \<longrightarrow> identifier \<noteq> []
          \<and> snd (delete cfg db identifier) = Inl (NotFoundError (table cfg) identifier))"
  by (auto simp: update_def updateAndReturn_def delete_def Let_def createNotFoundError_def
      getColumnMapping_def
      split: sum.splits prod.splits if_splits)

theorem zero_rows_promoted_to_NotFoundError_witness:
  "snd (update \<lparr>table = ''tickets'', COLUMN_MAP = None\<rparr>
          (\<lambda>q ps. Inr \<lparr>rows = [], rowCount = Some 0\<rparr>) [(''id'', Num 7)] [(''status'', Str ''closed'')])
     = Inl (NotFoundError ''tickets'' [(''id'', Num 7)])
   \<and> snd (updateAndReturn \<lparr>table = ''tickets'', COLUMN_MAP = None\<rparr>
          (\<lambda>q ps. Inr \<lparr>rows = [], rowCount = Some 0\<rparr>) [(''id'', Num 7)] [(''status'', Str ''closed'')])
     = Inl (NotFoundError ''tickets'' [(''id'', Num 7)])
   \<and> snd (delete \<lparr>table = ''tickets'', COLUMN_MAP = None\<rparr>
          (\<lambda>q ps. Inr \<lparr>rows = [], rowCount = Some 0\<rparr>) [(''id'', Num 7)])
     = Inl (NotFoundError ''tickets'' [(''id'', Num 7)])"
proof -
  let ?cfg = "\<lparr>table = ''tickets'', COLUMN_MAP = None\<rparr>"
  let ?db = "\<lambda>(q :: string) (ps :: jsval list). (Inr \<lparr>rows = [], rowCount = Some 0\<rparr> :: error + query_result)"
  let ?id = "[(''id'', Num 7)]"
  let ?up = "[(''status'', Str ''closed'')]"
  have m: "getColumnMapping ?cfg ?id = Inr (''id = $1'', [Num 7])"
    by code_simp
  obtain q1 ps1 where s1: "fst (update ?cfg ?db ?id ?up) = [(q1, ps1)]"
    by (simp add: update_def m Let_def)
  obtain q2 ps2 where s2: "fst (updateAndReturn ?cfg ?db ?id ?up) = [(q2, ps2)]"
    by (simp add: updateAndReturn_def m Let_def)
  obtain q3 ps3 where s3: "fst (delete ?cfg ?db ?id) = [(q3, ps3)]"
    by (simp add: delete_def m Let_def)
  from zero_rows_promoted_to_NotFoundError
         [of ?cfg ?db ?id ?up q1 ps1 "\<lparr>rows = [], rowCount = Some 0\<rparr>"
             q2 ps2 "\<lparr>rows = [], rowCount = Some 0\<rparr>" q3 ps3 "\<lparr>rows = [], rowCount = Some 0\<rparr>"]
       s1 s2 s3
  show ?thesis by simp
qed

subsection \<open>Bulk delete\<close>

lemma set_join_first: "set x \<subseteq> set (join sep (x # xs))"
  by (cases xs) auto

lemma dollar_in_binding: "CHR ''$'' \<in> set (binding column n)"
  by (simp add: binding_def)

lemma dollar_in_positional_conditions:
  "columns \<noteq> [] \<Longrightarrow> CHR ''$'' \<in> set (join sep (positional_conditions columns))"
proof (cases columns)
  case Nil
  assume "columns \<noteq> []"
  with Nil show ?thesis by simp
next
  case (Cons c cs)
  have "set (binding c 1) \<subseteq> set (join sep (positional_conditions columns))"
    unfolding Cons positional_conditions_eq using set_join_first by simp
  with dollar_in_binding show ?thesis by blast
qed

text \<open>
  C4 as stated fails: a mapping with one entry whose value is \<open>null\<close>, or whose column is
  overridden by the empty string, passes the check of \<open>deleteAll\<close>, and the statement
  executed is \<open>DELETE FROM tickets WHERE 1=1\<close> with no parameter.
\<close>

theorem deleteAll_unparameterized_counterexample:
  "deleteAll \<lparr>table = ''tickets'', COLUMN_MAP = None\<rparr> (store_reporting 5)
      (Some [(''status'', Null)])
     = ([(''DELETE FROM tickets WHERE 1=1'', [])], Inr 5)
   \<and> deleteAll \<lparr>table = ''tickets'', COLUMN_MAP = Some [(''status'', [])]\<rparr> (store_reporting 5)
       (Some [(''status'', Str ''open'')])
     = ([(''DELETE FROM tickets WHERE 1=1'', [])], Inr 5)"
  by code_simp

text \<open>
  C4, amended: \<open>deleteAll\<close> with a filter mapping of zero keys fails with a validation
  error and hands no statement to the store. With a mapping of at least one key it hands
  exactly one statement to the store, \<open>DELETE FROM table WHERE\<close> followed by the condition
  of \<open>buildFilterClause\<close>, with that builder's parameters, and returns the affected-row
  count the store reports. When the mapping has an included entry (a value that is neither
  \<open>undefined\<close> nor \<open>null\<close>, under a column name that is not empty), the statement is
  parameterized: its condition is the conjunction of \<open>column = $n\<close> over the included
  entries, it is not the tautology, and the values of these entries are bound, at least one.
\<close>

theorem deleteAll_guard_and_count:
  "deleteAll cfg db (Some []) =
     ([], Inl (Error (''deleteAll requires at least one filter. Use drop() to delete all records from ''
                      @ table cfg)))
   \<and> (filters \<noteq> [] \<longrightarrow>
        fst (deleteAll cfg db (Some filters)) =
          [(''DELETE FROM '' @ table cfg @ '' WHERE '' @ fst (buildFilterClause cfg filters),
            snd (buildFilterClause cfg filters))])
   \<and> (filters \<noteq> []
        \<and> db (''DELETE FROM '' @ table cfg @ '' WHERE '' @ fst (buildFilterClause cfg filters))
              (snd (buildFilterClause cfg filters)) = Inr r
        \<and> rowCount r = Some n \<longrightarrow>
        snd (deleteAll cfg db (Some filters)) = Inr n)
   \<and> ((\<exists>entry \<in> set filters. included cfg entry) \<longrightarrow>
        fst (deleteAll cfg db (Some filters)) =
          [(''DELETE FROM '' @ table cfg @ '' WHERE ''
              @ join '' AND ''
                  (positional_conditions
                     (map (getColumnName cfg \<circ> fst) (filter (included cfg) filters))),
            map snd (filter (included cfg) filters))]
        \<and> map snd (filter (included cfg) filters) \<noteq> []
        \<and> fst (buildFilterClause cfg filters) \<noteq> ''1=1'')"
proof (intro conjI impI)
  show "deleteAll cfg db (Some []) =
     ([], Inl (Error (''deleteAll requires at least one filter. Use drop() to delete all records from ''
                      @ table cfg)))"
    by (simp add: deleteAll_def)
next
  assume "filters \<noteq> []"
  then show "fst (deleteAll cfg db (Some filters)) =
          [(''DELETE FROM '' @ table cfg @ '' WHERE '' @ fst (buildFilterClause cfg filters),
            snd (buildFilterClause cfg filters))]"
    by (simp add: deleteAll_def Let_def split: prod.splits)
next
  assume "filters \<noteq> []
        \<and> db (''DELETE FROM '' @ table cfg @ '' WHERE '' @ fst (buildFilterClause cfg filters))
              (snd (buildFilterClause cfg filters)) = Inr r
        \<and> rowCount r = Some n"
  then show "snd (deleteAll cfg db (Some filters)) = Inr n"
    by (auto simp: deleteAll_def Let_def rowCount_or_0_def split: prod.splits)
next
  assume a: "\<exists>entry \<in> set filters. included cfg entry"
  then have ne: "filter (included cfg) filters \<noteq> []"
    by (auto simp: filter_empty_conv)
  from a have nonempty: "filters \<noteq> []"
    by auto
  from ne show "map snd (filter (included cfg) filters) \<noteq> []"
    by simp
  from ne have "CHR ''$'' \<in> set (fst (buildFilterClause cfg filters))"
    by (simp add: buildFilterClause_eq dollar_in_positional_conditions)
  then show "fst (buildFilterClause cfg filters) \<noteq> ''1=1''"
    by auto
  from ne nonempty show "fst (deleteAll cfg db (Some filters)) =
          [(''DELETE FROM '' @ table cfg @ '' WHERE ''
              @ join '' AND ''
                  (positional_conditions
                     (map (getColumnName cfg \<circ> fst) (filter (included cfg) filters))),
            map snd (filter (included cfg) filters))]"
    by (simp add: deleteAll_def Let_def buildFilterClause_eq)
qed

text \<open>
  C10: a filter mapping with at least one key whose values are all \<open>undefined\<close> or
  \<open>null\<close> passes the emptiness check of \<open>deleteAll\<close>, and the statement issued is the
  unconditional \<open>DELETE FROM table WHERE 1=1\<close> with no bound parameter.
\<close>

theorem deleteAll_absent_values_delete_every_row:
  "filters \<noteq> [] \<and> (\<forall>entry \<in> set filters. snd entry = Undefined \<or> snd entry = Null) \<longrightarrow>
     fst (deleteAll cfg db (Some filters)) = [(''DELETE FROM '' @ table cfg @ '' WHERE 1=1'', [])]
     \<and> (\<forall>r. db (''DELETE FROM '' @ table cfg @ '' WHERE 1=1'') [] = Inr r \<longrightarrow>
           snd (deleteAll cfg db (Some filters)) = Inr (rowCount_or_0 (rowCount r)))"
proof
  assume a: "filters \<noteq> [] \<and> (\<forall>entry \<in> set filters. snd entry = Undefined \<or> snd entry = Null)"
  then have "filter (included cfg) filters = []"
    by (auto simp: included_def filter_empty_conv)
  then have "buildFilterClause cfg filters = (''1=1'', [])"
    by (simp add: buildFilterClause_eq)
  with a show "fst (deleteAll cfg db (Some filters)) = [(''DELETE FROM '' @ table cfg @ '' WHERE 1=1'', [])]
     \<and> (\<forall>r. db (''DELETE FROM '' @ table cfg @ '' WHERE 1=1'') [] = Inr r \<longrightarrow>
           snd (deleteAll cfg db (Some filters)) = Inr (rowCount_or_0 (rowCount r)))"
    by (simp add: deleteAll_def Let_def)
qed

theorem deleteAll_guard_and_count_witness:
  "deleteAll \<lparr>table = ''tickets'', COLUMN_MAP = None\<rparr> (store_reporting 3)
      (Some [(''status'', Str ''open''), (''closedAt'', Null), (''guildId'', Str ''g'')])
   = ([(''DELETE FROM tickets WHERE status = $1 AND guild_id = $2'', [Str ''open'', Str ''g''])],
      Inr 3)"
proof -
  let ?cfg = "\<lparr>table = ''tickets'', COLUMN_MAP = None\<rparr>"
  let ?fs = "[(''status'', Str ''open''), (''closedAt'', Null), (''guildId'', Str ''g'')]"
  have b: "buildFilterClause ?cfg ?fs = (''status = $1 AND guild_id = $2'', [Str ''open'', Str ''g''])"
    by code_simp
  have i: "included ?cfg (''status'', Str ''open'')"
    by code_simp
  have kept: "filter (included ?cfg) ?fs = [(''status'', Str ''open''), (''guildId'', Str ''g'')]"
    by code_simp
  have clause: "join '' AND ''
                  (positional_conditions
                     (map (getColumnName ?cfg \<circ> fst)
                        [(''status'', Str ''open''), (''guildId'', Str ''g'')]))
                = ''status = $1 AND guild_id = $2''"
    by code_simp
  from deleteAll_guard_and_count [of ?cfg "store_reporting 3" ?fs "\<lparr>rows = [], rowCount = Some 3\<rparr>" 3] i
  have "fst (deleteAll ?cfg (store_reporting 3) (Some ?fs))
          = [(''DELETE FROM tickets WHERE status = $1 AND guild_id = $2'', [Str ''open'', Str ''g''])]
        \<and> snd (deleteAll ?cfg (store_reporting 3) (Some ?fs)) = Inr 3"
    unfolding b kept clause by (simp add: store_reporting_def)
  then show ?thesis by (simp add: prod_eq_iff)
qed

theorem deleteAll_absent_values_delete_every_row_witness:
  "deleteAll \<lparr>table = ''tickets'', COLUMN_MAP = None\<rparr>
      (\<lambda>q ps. Inr \<lparr>rows = [], rowCount = Some 42\<rparr>)
      (Some [(''status'', Undefined), (''channelId'', Null)])
   = ([(''DELETE FROM tickets WHERE 1=1'', [])], Inr 42)"
  using deleteAll_absent_values_delete_every_row
          [of "[(''status'', Undefined), (''channelId'', Null)]"
              "\<lparr>table = ''tickets'', COLUMN_MAP = None\<rparr>"
              "\<lambda>q ps. Inr \<lparr>rows = [], rowCount = Some 42\<rparr>"]
  by (simp add: prod_eq_iff rowCount_or_0_def)


subsection \<open>Pagination\<close>

text \<open>
  C7: the statement of \<open>findAll\<close> is \<open>SELECT * FROM table WHERE\<close> with the condition of
  the filters (the tautology when there are none), then \<open>ORDER BY column direction\<close> when
  an order field is requested (the column resolved by \<open>getColumnName\<close>, the direction
  \<open>ASC\<close> unless \<open>DESC\<close> is given), then \<open>LIMIT $n\<close> when a limit is requested, then
  \<open>OFFSET $m\<close> when an offset is requested. \<open>n\<close> and \<open>m\<close> continue the numbering of the
  filter parameters, and the parameters are those of the filters followed by the limit and
  the offset. A field counts as requested when it is present and truthy. \<open>getAll\<close> is
  \<open>findAll\<close> without filters.
\<close>

theorem findAll_statement_order:
  "(let (whereClause, filterParams) =
          (case filters of Some fs \<Rightarrow> buildFilterClause cfg fs | None \<Rightarrow> (''1=1'', []));
        ordered = requested_str (opt options orderBy);
        limited = requested_num (opt options limit);
        shifted = requested_num (opt options offset)
    in fst (findAll cfg db filters options) =
         [(''SELECT * FROM '' @ table cfg @ '' WHERE '' @ whereClause
             @ (if ordered
                then '' ORDER BY '' @ getColumnName cfg (the (opt options orderBy)) @ '' ''
                       @ (if opt options orderDirection = Some DESC then ''DESC'' else ''ASC'')
                else [])
             @ (if limited then '' LIMIT $'' @ string_of_nat (length filterParams + 1) else [])
             @ (if shifted
                then '' OFFSET $''
                       @ string_of_nat (length filterParams + (if limited then 1 else 0) + 1)
                else []),
           filterParams
             @ (if limited then [Num (the (opt options limit))] else [])
             @ (if shifted then [Num (the (opt options offset))] else []))])
   \<and> getAll cfg db options = findAll cfg db None options"
  by (cases "opt options orderDirection"; cases "the (opt options orderDirection)")
     (simp_all add: findAll_def findAll_statement_def getAll_def Let_def split: prod.splits option.splits)

theorem findAll_statement_order_witness:
  "fst (findAll \<lparr>table = ''tickets'', COLUMN_MAP = None\<rparr> (\<lambda>q ps. Inr \<lparr>rows = [], rowCount = Some 0\<rparr>)
          (Some [(''status'', Str ''open''), (''guildId'', Str ''g'')])
          (Some \<lparr>limit = Some 10, offset = Some 20, orderBy = Some ''createdAt'',
                  orderDirection = None\<rparr>))
   = [(''SELECT * FROM tickets WHERE status = $1 AND guild_id = $2 ORDER BY created_at ASC LIMIT $3 OFFSET $4'',
       [Str ''open'', Str ''g'', Num 10, Num 20])]"
proof -
  let ?cfg = "\<lparr>table = ''tickets'', COLUMN_MAP = None\<rparr>"
  let ?fs = "[(''status'', Str ''open''), (''guildId'', Str ''g'')]"
  let ?os = "Some \<lparr>limit = Some 10, offset = Some 20, orderBy = Some ''createdAt'',
                  orderDirection = None\<rparr>"
  have b: "buildFilterClause ?cfg ?fs = (''status = $1 AND guild_id = $2'', [Str ''open'', Str ''g''])"
    by code_simp
  have c: "getColumnName ?cfg ''createdAt'' = ''created_at''"
    by code_simp
  have n3: "string_of_nat (Suc (Suc (Suc 0))) = ''3''"
    and n4: "string_of_nat (Suc (Suc (Suc (Suc 0)))) = ''4''"
    by code_simp+
  from findAll_statement_order [where filters = "Some ?fs" and cfg = ?cfg and options = ?os
         and db = "\<lambda>q ps. Inr \<lparr>rows = [], rowCount = Some 0\<rparr>"]
  show ?thesis
    by (simp add: b c n3 n4 opt_def requested_str_def requested_num_def)
qed

subsection \<open>Naming transform and row mapper\<close>

lemma toUpperCase_toLowerCase: "is_upper c \<Longrightarrow> toUpperCase (toLowerCase c) = c"
  by (simp add: toUpperCase_def toLowerCase_def is_upper_def is_lower_def of_char_of)

lemma is_lower_toLowerCase: "is_upper c \<Longrightarrow> is_lower (toLowerCase c)"
  by (simp add: toLowerCase_def is_upper_def is_lower_def of_char_of)

lemma not_lower_underscore: "\<not> is_lower CHR ''_''" "\<not> is_upper CHR ''_''"
  by (simp_all add: is_lower_def is_upper_def)

lemma upper_not_lower: "is_upper c \<Longrightarrow> \<not> is_lower c"
  by (simp add: is_lower_def is_upper_def)

lemma snakeToCamel_camelToSnake:
  "\<not> underscore_lower s \<Longrightarrow> snakeToCamel (camelToSnake s) = s"
proof (induction s rule: underscore_lower.induct)
  case 1
  then show ?case by simp
next
  case (2 c)
  then show ?case
    by (auto simp: toUpperCase_toLowerCase is_lower_toLowerCase)
next
  case (3 c d cs)
  then show ?case
    by (auto simp: toUpperCase_toLowerCase is_lower_toLowerCase not_lower_underscore upper_not_lower)
qed

text \<open>No result of \<open>snakeToCamel\<close> has an underscore before a letter of \<open>a-z\<close>; so the key
  assigned by the row mapper is never \<open>__proto__\<close>, and the assignment defines an own
  property of the entity.\<close>

lemma is_upper_toUpperCase: "is_lower c \<Longrightarrow> is_upper (toUpperCase c)"
proof -
  assume l: "is_lower c"
  then have "(of_char c :: nat) - 32 < 256"
    unfolding is_lower_def by linarith
  then have "((of_char c :: nat) - 32) mod 256 = of_char c - 32"
    by simp
  with l show ?thesis
    by (auto simp: toUpperCase_def is_lower_def is_upper_def of_char_of)
qed

lemma snakeToCamel_no_underscore_lower: "\<not> underscore_lower (snakeToCamel s)"
proof (induction s rule: snakeToCamel.induct)
  case 1
  then show ?case by simp
next
  case (2 c)
  then show ?case by simp
next
  case (3 c d cs)
  show ?case
  proof (cases "c = CHR ''_'' \<and> is_lower d")
    case True
    then have "is_upper (toUpperCase d)"
      by (simp add: is_upper_toUpperCase)
    then have "toUpperCase d \<noteq> CHR ''_''"
      using not_lower_underscore(2) by auto
    with 3 True show ?thesis
      by (cases "snakeToCamel cs") auto
  next
    case False
    with 3 show ?thesis
      by (cases cs) (auto dest: is_upper_toUpperCase upper_not_lower split: if_splits)
  qed
qed

lemma snakeToCamel_never_proto: "snakeToCamel s \<noteq> ''__proto__''"
proof
  assume "snakeToCamel s = ''__proto__''"
  moreover have "underscore_lower ''__proto__''"
    by code_simp
  ultimately show False
    using snakeToCamel_no_underscore_lower [of s] by simp
qed

lemma obj_set_fresh: "k \<notin> fst ` set ps \<Longrightarrow> obj_set k v ps = ps @ [(k, v)]"
  by (induction ps) auto



lemma foldl_obj_set_distinct:
  "distinct (map f (map fst xs)) \<Longrightarrow> f ` fst ` set xs \<inter> fst ` set acc = {} \<Longrightarrow>
   foldl (\<lambda>acc (key, value). obj_set (f key) value acc) acc xs
     = acc @ map (\<lambda>(key, value). (f key, value)) xs"
proof (induction xs arbitrary: acc)
  case Nil
  then show ?case by simp
next
  case (Cons x xs)
  obtain key "value" where x: "x = (key, value)" by (cases x)
  from Cons.prems have fresh: "f key \<notin> fst ` set acc"
    unfolding x by auto
  from Cons.prems have d: "distinct (map f (map fst xs))"
    by simp
  from Cons.prems have "f ` fst ` set xs \<inter> fst ` set (acc @ [(f key, value)]) = {}"
    unfolding x by (auto simp: image_iff)
  from Cons.IH [OF d this] show ?case
    unfolding x by (simp add: obj_set_fresh [OF fresh])
qed

lemma getColumnName_default:
  "\<not> overridden cfg key \<Longrightarrow> \<not> reads_inherited cfg key \<Longrightarrow>
   getColumnName cfg key = camelToSnake key"
  by (auto simp: overridden_def reads_inherited_def getColumnName_def COLUMN_MAP_read_def
      split: option.splits)




subsection \<open>Round trip of field names\<close>

text \<open>
  C9 as stated fails: the field name \<open>user_name\<close> has no override, no capital letter
  (so neither consecutive capitals nor a leading capital) and no digit, and it comes back
  as \<open>userName\<close>.
\<close>

theorem entity_round_trip_counterexample:
  "\<not> overridden \<lparr>table = ''users'', COLUMN_MAP = None\<rparr> ''user_name''
   \<and> \<not> list_ex is_upper ''user_name''
   \<and> \<not> list_ex is_digit ''user_name''
   \<and> snakeToCamel (camelToSnake ''user_name'') = ''userName''
   \<and> mapRowToEntity \<lparr>table = ''users'', COLUMN_MAP = None\<rparr>
         (getCreateMapping \<lparr>table = ''users'', COLUMN_MAP = None\<rparr> [(''user_name'', Str ''x'')])
       = [(''userName'', Str ''x'')]
   \<and> mapRowToEntity \<lparr>table = ''users'', COLUMN_MAP = None\<rparr>
         (getCreateMapping \<lparr>table = ''users'', COLUMN_MAP = None\<rparr> [(''user_name'', Str ''x'')])
       \<noteq> [(''user_name'', Str ''x'')]"
  by code_simp

text \<open>
  C9, amended: for an entity (a mapping, so its keys are distinct) whose field names have
  no own entry in the override table, do not read an inherited member of
  \<open>Object.prototype\<close> from it, and contain no underscore directly followed by a letter of
  \<open>a-z\<close>, every field name is given back by \<open>snakeToCamel\<close> from its storage column, and
  mapping the row whose entries are the column and value pairs of the entity gives the
  entity back, values and order unchanged. Consecutive capitals, a leading capital and
  digits do not prevent this.
\<close>

theorem entity_round_trip:
  "distinct (map fst entity)
   \<and> (\<forall>key \<in> fst ` set entity.
         \<not> overridden cfg key \<and> \<not> reads_inherited cfg key \<and> \<not> underscore_lower key)
   \<longrightarrow> (\<forall>key \<in> fst ` set entity. snakeToCamel (getColumnName cfg key) = key)
       \<and> mapRowToEntity cfg (getCreateMapping cfg entity) = entity"
proof (intro impI conjI)
  let ?row = "map (\<lambda>(key, value). (getColumnName cfg key, value)) entity"
  assume a: "distinct (map fst entity)
   \<and> (\<forall>key \<in> fst ` set entity.
         \<not> overridden cfg key \<and> \<not> reads_inherited cfg key \<and> \<not> underscore_lower key)"
  then have key: "\<forall>key \<in> fst ` set entity. snakeToCamel (getColumnName cfg key) = key"
    by (simp add: getColumnName_default snakeToCamel_camelToSnake)
  then show "\<forall>key \<in> fst ` set entity. snakeToCamel (getColumnName cfg key) = key" .
  from a have dk: "distinct (map fst entity)"
    by simp
  from key have inv: "map (\<lambda>(key, value). (snakeToCamel key, value)) ?row = entity"
    by (induction entity) auto
  from key have keys_inv: "map snakeToCamel (map fst ?row) = map fst entity"
    by (induction entity) auto
  have d2: "distinct (map snakeToCamel (map fst ?row))"
    unfolding keys_inv by (rule dk)
  show "mapRowToEntity cfg (getCreateMapping cfg entity) = entity"
    unfolding mapRowToEntity_def getCreateMapping_def
    using foldl_obj_set_distinct [OF d2, of "[]"] inv by simp
qed

theorem entity_round_trip_witness:
  "mapRowToEntity \<lparr>table = ''tickets'', COLUMN_MAP = Some [(''legacy'', ''old_col'')]\<rparr>
     (getCreateMapping \<lparr>table = ''tickets'', COLUMN_MAP = Some [(''legacy'', ''old_col'')]\<rparr>
        [(''channelID'', Str ''c''), (''Status'', Null), (''line2Text'', Num 2), (''a_B_'', Bool True)])
   = [(''channelID'', Str ''c''), (''Status'', Null), (''line2Text'', Num 2), (''a_B_'', Bool True)]"
proof -
  let ?cfg = "\<lparr>table = ''tickets'', COLUMN_MAP = Some [(''legacy'', ''old_col'')]\<rparr>"
  let ?e = "[(''channelID'', Str ''c''), (''Status'', Null), (''line2Text'', Num 2), (''a_B_'', Bool True)]"
  have d: "distinct (map fst ?e)"
    by simp
  have o: "\<not> overridden ?cfg ''channelID'' \<and> \<not> overridden ?cfg ''Status''
           \<and> \<not> overridden ?cfg ''line2Text'' \<and> \<not> overridden ?cfg ''a_B_''"
    by (simp add: overridden_def)
  have i: "\<not> reads_inherited ?cfg ''channelID'' \<and> \<not> reads_inherited ?cfg ''Status''
           \<and> \<not> reads_inherited ?cfg ''line2Text'' \<and> \<not> reads_inherited ?cfg ''a_B_''"
    by code_simp
  have u: "\<not> underscore_lower ''channelID'' \<and> \<not> underscore_lower ''Status''
           \<and> \<not> underscore_lower ''line2Text'' \<and> \<not> underscore_lower ''a_B_''"
    by code_simp
  from entity_round_trip [of ?e ?cfg] d o i u show ?thesis
    by simp
qed

end
